theory Spec2Isabelle
  imports Main
begin

section \<open>Strings and the library functions the program calls\<close>

text \<open>
  The program is a single Python module, \<^verbatim>\<open>app.py\<close>. A Python string is modelled
  as a \<^typ>\<open>string\<close>, and a literal of the module as the bytes the file holds for it.
  The library functions \<^verbatim>\<open>str.split\<close>, \<^verbatim>\<open>int\<close>, \<^verbatim>\<open>str.lower\<close>, \<^verbatim>\<open>str.join\<close>
  and the substring test \<^verbatim>\<open>in\<close> are modelled on ASCII text: a character outside
  ASCII is an ordinary character here, neither a digit nor white space, and without
  case.
\<close>

datatype py_error = ValueError

text \<open>
  \<^verbatim>\<open>s.split(c)\<close> for a one-character separator. The result is never empty
  (\<open>split_on_not_Nil\<close> below), so the second branch of the case is never taken.
\<close>

fun split_on :: "char \<Rightarrow> string \<Rightarrow> string list" where
  "split_on c [] = [Nil]"
| "split_on c (x # xs) =
     (if x = c then [] # split_on c xs
      else (case split_on c xs of
              p # ps \<Rightarrow> (x # p) # ps
            | [] \<Rightarrow> [x # Nil]))"

text \<open>\<^verbatim>\<open>sep.join(xs)\<close>.\<close>

fun join_with :: "string \<Rightarrow> string list \<Rightarrow> string" where
  "join_with sep [] = []"
| "join_with sep [x] = x"
| "join_with sep (x # y # ys) = x @ sep @ join_with sep (y # ys)"

text \<open>
  \<^verbatim>\<open>int(s)\<close> in base ten: white space (tab, line feed, vertical tab, form feed,
  carriage return, space) is stripped at both ends, one sign may follow, then decimal
  digits, where single underscores may stand between two digits. Anything else raises
  \<^verbatim>\<open>ValueError\<close>, as does a literal of more digits than the interpreter's default
  limit of 4300. On a string that holds characters outside ASCII, Python also reads the
  decimal digits of other scripts and strips other white space; \<open>py_int\<close> does not, and
  such a string is outside what it models.
\<close>

definition is_space :: "char \<Rightarrow> bool" where
  "is_space c = (of_char c \<in> set [9, 10, 11, 12, 13, 32 :: nat])"

definition strip :: "string \<Rightarrow> string" where
  "strip s = rev (dropWhile is_space (rev (dropWhile is_space s)))"

definition digit_val :: "char \<Rightarrow> nat option" where
  "digit_val c =
     (if 48 \<le> (of_char c :: nat) \<and> (of_char c :: nat) \<le> 57
      then Some (of_char c - 48) else None)"

text \<open>The flag says whether the previous character was a digit.\<close>

fun body_digits :: "bool \<Rightarrow> string \<Rightarrow> nat list option" where
  "body_digits prev [] = (if prev then Some [] else None)"
| "body_digits prev (c # cs) =
     (if c = CHR ''_'' then (if prev then body_digits False cs else None)
      else (case digit_val c of
              None \<Rightarrow> None
            | Some d \<Rightarrow> map_option ((#) d) (body_digits True cs)))"

definition int_max_str_digits :: nat where
  "int_max_str_digits = 4300"

definition digits_value :: "nat list \<Rightarrow> nat" where
  "digits_value ds = foldl (\<lambda>a d. 10 * a + d) 0 ds"

definition py_int :: "string \<Rightarrow> py_error + int" where
  "py_int s =
     (let t = strip s;
          sign = (case t of c # r \<Rightarrow> (if c = CHR ''-'' then - 1 else 1) | [] \<Rightarrow> (1 :: int));
          body = (case t of c # r \<Rightarrow> (if c = CHR ''-'' \<or> c = CHR ''+'' then r else t) | [] \<Rightarrow> t)
      in case body_digits False body of
           None \<Rightarrow> Inl ValueError
         | Some ds \<Rightarrow>
             if int_max_str_digits < length ds then Inl ValueError
             else Inr (sign * int (digits_value ds)))"

section \<open>Version comparator\<close>

text \<open>
  The guarded block of \<^verbatim>\<open>parse_version\<close>: the three conversions run in the order
  major, minor, patch, and the first one that raises ends the block.
\<close>

definition parse_version_try :: "string \<Rightarrow> py_error + (int \<times> int \<times> int)" where
  "parse_version_try version =
     (let parts = split_on CHR ''.'' version in
      case (if 0 < length parts then py_int (parts ! 0) else Inr 0) of
        Inl e \<Rightarrow> Inl e
      | Inr major \<Rightarrow>
          (case (if 1 < length parts then py_int (parts ! 1) else Inr 0) of
             Inl e \<Rightarrow> Inl e
           | Inr minor \<Rightarrow>
               (case (if 2 < length parts then py_int (parts ! 2) else Inr 0) of
                  Inl e \<Rightarrow> Inl e
                | Inr patch \<Rightarrow> Inr (major, minor, patch))))"

text \<open>The bare \<^verbatim>\<open>except\<close> turns every failure into the triple of zeros.\<close>

definition parse_version :: "string \<Rightarrow> int \<times> int \<times> int" where
  "parse_version version =
     (case parse_version_try version of Inl e \<Rightarrow> (0, 0, 0) | Inr t \<Rightarrow> t)"

definition get_bump_type :: "string \<Rightarrow> string \<Rightarrow> string" where
  "get_bump_type old_version new_version =
     (let old = parse_version old_version;
          new = parse_version new_version
      in if fst new > fst old then ''major''
         else if fst (snd new) > fst (snd old) then ''minor''
         else if snd (snd new) > snd (snd old) then ''patch''
         else ''unknown'')"

section \<open>Knowledge store\<close>

text \<open>
  The four module-level tables. A \<^verbatim>\<open>dict\<close> that is only looked up is a map; the
  compatibility matrix is iterated with \<^verbatim>\<open>.items()\<close>, so it is the list of its
  entries in the order of the literal. \<^verbatim>\<open>d.get(k, default)\<close> is \<open>dict_get\<close>.
\<close>

definition dict_get :: "('k \<rightharpoonup> 'v) \<Rightarrow> 'k \<Rightarrow> 'v \<Rightarrow> 'v" where
  "dict_get d k dflt = (case d k of None \<Rightarrow> dflt | Some v \<Rightarrow> v)"

definition RELEASE_METADATA :: "string \<rightharpoonup> (string \<rightharpoonup> (string \<rightharpoonup> string))" where
  "RELEASE_METADATA = map_of
     [(''auth-lib'', map_of
        [(''2.1.0'', map_of
           [(''notes'', ''Security patches for token validation. Performance improvements in JWT parsing.''),
            (''bump_type'', ''minor''),
            (''release_date'', ''2024-01-15'')]),
         (''2.2.0'', map_of
           [(''notes'', ''Added OAuth2 refresh token support. Fixed memory leak in session management.''),
            (''bump_type'', ''minor''),
            (''release_date'', ''2024-02-20'')]),
         (''3.0.0'', map_of
           [(''notes'', ''BREAKING: Removed deprecated API endpoints. New authentication flow required. Migration guide available.''),
            (''bump_type'', ''major''),
            (''release_date'', ''2024-03-10'')])]),
      (''payments-core'', map_of
        [(''3.1.0'', map_of
           [(''notes'', ''Bug fixes for currency conversion edge cases. Improved error handling.''),
            (''bump_type'', ''minor''),
            (''release_date'', ''2024-01-22'')]),
         (''3.2.0'', map_of
           [(''notes'', ''Added support for new payment methods. Enhanced transaction logging.''),
            (''bump_type'', ''minor''),
            (''release_date'', ''2024-02-05'')]),
         (''4.0.0'', map_of
           [(''notes'', ''BREAKING: New payment gateway integration. API signature changes. Requires database migration.''),
            (''bump_type'', ''major''),
            (''release_date'', ''2024-03-18'')])]),
      (''logging-lib'', map_of
        [(''1.5.0'', map_of
           [(''notes'', ''Fixed log rotation issue. Added structured logging support.''),
            (''bump_type'', ''minor''),
            (''release_date'', ''2024-01-10'')]),
         (''1.5.1'', map_of
           [(''notes'', ''Critical bug fix for log file corruption under high load.''),
            (''bump_type'', ''patch''),
            (''release_date'', ''2024-01-25'')]),
         (''2.0.0'', map_of
           [(''notes'', ''BREAKING: Changed default log format. New configuration schema required.''),
            (''bump_type'', ''major''),
            (''release_date'', ''2024-02-28'')])])]"

definition KNOWN_ISSUES :: "string \<rightharpoonup> (string \<rightharpoonup> string list)" where
  "KNOWN_ISSUES = map_of
     [(''auth-lib'', map_of
        [(''2.0.0'', [''CVE-2024-001: Token validation bypass vulnerability'']),
         (''2.0.5'', [''CVE-2024-001: Token validation bypass vulnerability'']),
         (''2.1.0'', [])]),
      (''payments-core'', map_of
        [(''3.0.0'', [''CVE-2024-002: Potential race condition in transaction processing'']),
         (''3.1.0'', [])]),
      (''logging-lib'', map_of
        [(''1.4.0'', [''CVE-2024-003: Log injection vulnerability'']),
         (''1.5.0'', [])])]"

definition INTERNAL_INCIDENTS :: "string \<rightharpoonup> (string \<rightharpoonup> string list)" where
  "INTERNAL_INCIDENTS = map_of
     [(''payments-core'', map_of
        [(''3.2.0'', [''Incident #142: Memory leak detected in production. Root cause: improper resource cleanup in transaction handler.''])]),
      (''auth-lib'', map_of
        [(''2.0.0'', [''Incident #89: Authentication failures during peak load. Resolved in 2.1.0.''])]),
      (''logging-lib'', map_of
        [(''1.4.5'', [''Incident #156: Log file corruption causing service restarts. Fixed in 1.5.1.''])])]"

type_synonym service_table = "(string \<times> (string \<rightharpoonup> string)) list"

definition COMPATIBILITY_MATRIX :: service_table where
  "COMPATIBILITY_MATRIX =
     [(''Checkout Service'', map_of
        [(''payments-core'', ''3.2.0''),
         (''auth-lib'', ''2.2.0''),
         (''logging-lib'', ''1.5.1'')]),
      (''User Service'', map_of
        [(''auth-lib'', ''3.0.0''),
         (''logging-lib'', ''2.0.0'')]),
      (''API Gateway'', map_of
        [(''auth-lib'', ''2.2.0''),
         (''logging-lib'', ''1.5.1'')])]"

section \<open>Issue and incident lookup\<close>

definition check_security_issues :: "string \<Rightarrow> string \<Rightarrow> string \<Rightarrow> string list \<times> string list" where
  "check_security_issues package old_version new_version =
     (let old_issues = dict_get (dict_get KNOWN_ISSUES package Map.empty) old_version [];
          new_issues = dict_get (dict_get KNOWN_ISSUES package Map.empty) new_version []
      in (old_issues, new_issues))"

definition check_internal_incidents :: "string \<Rightarrow> string \<Rightarrow> string \<Rightarrow> string list \<times> string list" where
  "check_internal_incidents package old_version new_version =
     (let old_incidents = dict_get (dict_get INTERNAL_INCIDENTS package Map.empty) old_version [];
          new_incidents = dict_get (dict_get INTERNAL_INCIDENTS package Map.empty) new_version []
      in (old_incidents, new_incidents))"

section \<open>Compatibility checker\<close>

text \<open>
  \<^verbatim>\<open>s.lower()\<close> on ASCII text. Python also lowers the cased characters outside
  ASCII (the Kelvin sign becomes \<open>k\<close>, for one); \<open>lower\<close> leaves them as they are, and
  such text is outside what it models.
\<close>

definition lower_char :: "char \<Rightarrow> char" where
  "lower_char c =
     (case map_of (zip ''ABCDEFGHIJKLMNOPQRSTUVWXYZ'' ''abcdefghijklmnopqrstuvwxyz'') c of
        Some l \<Rightarrow> l
      | None \<Rightarrow> c)"

definition lower :: "string \<Rightarrow> string" where
  "lower s = map lower_char s"

text \<open>\<open>starts_with s p\<close>: the text \<open>s\<close> begins with \<open>p\<close>.\<close>

fun starts_with :: "string \<Rightarrow> string \<Rightarrow> bool" where
  "starts_with s [] = True"
| "starts_with [] (p # ps) = False"
| "starts_with (c # cs) (p # ps) = (c = p \<and> starts_with cs ps)"

text \<open>\<open>substring_in sub s\<close> is Python's \<^verbatim>\<open>sub in s\<close> on two strings.\<close>

fun substring_in :: "string \<Rightarrow> string \<Rightarrow> bool" where
  "substring_in sub [] = (sub = [])"
| "substring_in sub (c # cs) = (starts_with (c # cs) sub \<or> substring_in sub cs)"

record compat_info =
  compatible :: "string list"
  incompatible :: "string list"

text \<open>
  The first loop of \<^verbatim>\<open>check_compatibility\<close>, over the entries still to visit. It
  leaves at the first service whose lower-cased name occurs in the lower-cased context,
  whether or not that service uses the package: the \<^verbatim>\<open>break\<close> is outside the inner
  test.
\<close>

fun context_scan :: "service_table \<Rightarrow> string \<Rightarrow> string \<Rightarrow> string list \<Rightarrow> string list" where
  "context_scan [] package context_lower compatible_services = compatible_services"
| "context_scan ((service_name, packages) # rest) package context_lower compatible_services =
     (if substring_in (lower service_name) context_lower then
        (case packages package of
           Some service_version \<Rightarrow>
             compatible_services @ [service_name @ '' uses '' @ service_version]
         | None \<Rightarrow> compatible_services)
      else context_scan rest package context_lower compatible_services)"

text \<open>The second loop, which visits every entry; the state is the pair of lists.\<close>

fun full_scan ::
  "service_table \<Rightarrow> string \<Rightarrow> string \<Rightarrow> string list \<times> string list \<Rightarrow> string list \<times> string list"
where
  "full_scan [] package new_version acc = acc"
| "full_scan ((service_name, packages) # rest) package new_version
     (compatible_services, incompatible_services) =
     (case packages package of
        None \<Rightarrow>
          full_scan rest package new_version (compatible_services, incompatible_services)
      | Some service_version \<Rightarrow>
          (let new_ver = parse_version new_version;
               service_ver = parse_version service_version
           in if fst new_ver = fst service_ver then
                full_scan rest package new_version
                  (compatible_services @ [service_name @ '' uses '' @ service_version],
                   incompatible_services)
              else if fst new_ver > fst service_ver then
                full_scan rest package new_version
                  (compatible_services,
                   incompatible_services @
                     [service_name @ '' uses '' @ service_version @ '' (major version mismatch)''])
              else
                full_scan rest package new_version
                  (compatible_services, incompatible_services)))"

text \<open>\<^verbatim>\<open>if context:\<close> holds for a string that is present and not empty.\<close>

definition truthy :: "string option \<Rightarrow> bool" where
  "truthy ctx = (case ctx of None \<Rightarrow> False | Some s \<Rightarrow> s \<noteq> [])"

definition check_compatibility :: "string \<Rightarrow> string \<Rightarrow> string option \<Rightarrow> compat_info" where
  "check_compatibility package new_version ctx =
     (let compatible_services =
            (if truthy ctx then
               context_scan COMPATIBILITY_MATRIX package (lower (the ctx)) []
             else []);
          scanned = full_scan COMPATIBILITY_MATRIX package new_version (compatible_services, [])
      in \<lparr>compatible = fst scanned, incompatible = snd scanned\<rparr>)"

section \<open>Explanation composer\<close>

text \<open>
  The non-ASCII pictographs that open some lines of the module's text, as the bytes the
  file holds for them.
\<close>

definition warn_mark :: string where
  "warn_mark =
     [CHR 0xE2, CHR 0x80, CHR 0x9A, CHR 0xC3, CHR 0xB6, CHR 0xE2, CHR 0x80, CHR 0xA0,
      CHR 0xC3, CHR 0x94, CHR 0xE2, CHR 0x88, CHR 0x8F, CHR 0xC3, CHR 0xA8]"

definition lock_mark :: string where
  "lock_mark =
     [CHR 0xEF, CHR 0xA3, CHR 0xBF, CHR 0xC3, CHR 0xBC, CHR 0xC3, CHR 0xAE, CHR 0xC3,
      CHR 0xAD]"

definition check_mark :: string where
  "check_mark =
     [CHR 0xE2, CHR 0x80, CHR 0x9A, CHR 0xC3, CHR 0xBA, CHR 0xC3, CHR 0x96]"

definition info_mark :: string where
  "info_mark =
     [CHR 0xE2, CHR 0x80, CHR 0x9A, CHR 0xC3, CHR 0x91, CHR 0xCF, CHR 0x80, CHR 0xC3,
      CHR 0x94, CHR 0xE2, CHR 0x88, CHR 0x8F, CHR 0xC3, CHR 0xA8]"

record explanation =
  summary :: string
  risk_reasoning :: "string list"
  security_reasoning :: "string list"
  compatibility_reasoning :: "string list"
  release_notes :: string
  bump_type :: string
  sources :: "string list"

text \<open>
  Each list starts empty and grows by \<^verbatim>\<open>append\<close>; the numbered names are the
  successive values of the one Python variable.
\<close>

definition explain_version_choice ::
  "string \<Rightarrow> string \<Rightarrow> string \<Rightarrow> string \<Rightarrow> string option \<Rightarrow> explanation"
where
  "explain_version_choice package old_version new_version ecosystem ctx =
     (let bump = get_bump_type old_version new_version;
          notes = dict_get (dict_get (dict_get RELEASE_METADATA package Map.empty)
                    new_version Map.empty) ''notes'' ''No release notes available.'';
          metadata_bump = dict_get (dict_get (dict_get RELEASE_METADATA package Map.empty)
                    new_version Map.empty) ''bump_type'' bump;
          old_security_issues = fst (check_security_issues package old_version new_version);
          new_security_issues = snd (check_security_issues package old_version new_version);
          old_incidents = fst (check_internal_incidents package old_version new_version);
          new_incidents = snd (check_internal_incidents package old_version new_version);
          compat = check_compatibility package new_version ctx;

          sources0 = [];
          sources1 = (if notes \<noteq> ''No release notes available.''
                      then sources0 @ [''Release notes for '' @ package @ '' '' @ new_version]
                      else sources0);
          sources2 = (if old_security_issues \<noteq> []
                      then sources1 @ [''Security advisories for '' @ package @ '' '' @ old_version]
                      else sources1);
          sources3 = (if old_incidents \<noteq> []
                      then sources2 @ [''Internal incident reports for '' @ package @ '' '' @ old_version]
                      else sources2);
          sources4 = (if compatible compat \<noteq> [] \<or> incompatible compat \<noteq> []
                      then sources3 @ [''Internal compatibility matrix'']
                      else sources3);

          summary_text =
            (if bump = ''major'' then
               ''Major version upgrade from '' @ old_version @ '' to '' @ new_version @
               ''. This may include breaking changes.''
             else if bump = ''minor'' then
               ''Minor version upgrade from '' @ old_version @ '' to '' @ new_version @
               ''. New features and improvements expected.''
             else
               ''Patch upgrade from '' @ old_version @ '' to '' @ new_version @
               ''. Bug fixes and security patches.'');

          risk0 = [];
          risk1 =
            (if bump = ''major'' then
               risk0 @ [''This is a major version upgrade, which typically includes breaking changes. Review the release notes carefully and plan for migration.'']
             else if bump = ''minor'' then
               risk0 @ [''This is a minor version upgrade, which should be backward compatible but may introduce new features.'']
             else
               risk0 @ [''This is a patch upgrade, which should be low risk and focused on bug fixes.'']);
          risk2 = (if old_incidents \<noteq> []
                   then risk1 @ [warn_mark @ '' The old version ('' @ old_version @
                          '') has known internal incidents that may be resolved in the new version.'']
                   else risk1);
          risk3 = (if new_incidents \<noteq> []
                   then risk2 @ [warn_mark @ '' WARNING: The new version ('' @ new_version @
                          '') has known internal incidents. Consider investigating before upgrading.'']
                   else risk2);

          security0 = [];
          security1 =
            (if old_security_issues \<noteq> [] then
               (let listed = security0 @ [lock_mark @ '' The old version ('' @ old_version @
                       '') has known security vulnerabilities: '' @
                       join_with '', '' old_security_issues]
                in if new_security_issues = []
                   then listed @ [check_mark @ '' The new version ('' @ new_version @
                          '') appears to address these security issues.'']
                   else listed)
             else
               security0 @ [check_mark @ '' No known security issues found for version '' @
                 old_version @ ''.'']);
          security2 = (if new_security_issues \<noteq> []
                       then security1 @ [warn_mark @ '' WARNING: The new version ('' @ new_version @
                              '') has known security issues: '' @
                              join_with '', '' new_security_issues]
                       else security1);

          compatibility0 = [];
          compatibility1 = (if compatible compat \<noteq> []
                            then compatibility0 @ [check_mark @ '' Compatible versions found: '' @
                                   join_with '', '' (compatible compat)]
                            else compatibility0);
          compatibility2 = (if incompatible compat \<noteq> []
                            then compatibility1 @ [warn_mark @ '' Potential compatibility concerns: '' @
                                   join_with '', '' (incompatible compat)]
                            else compatibility1);
          compatibility3 = (if compatible compat = [] \<and> incompatible compat = []
                            then compatibility2 @ [info_mark @
                                   '' No compatibility data found for other services using '' @
                                   package @ ''.'']
                            else compatibility2)
      in \<lparr>summary = summary_text,
          risk_reasoning = risk3,
          security_reasoning = security2,
          compatibility_reasoning = compatibility3,
          release_notes = notes,
          bump_type = bump,
          sources = sources4\<rparr>)"

section \<open>Presentation layer\<close>

definition bullets :: "string list \<Rightarrow> string list" where
  "bullets reasons = map (\<lambda>reason. ''- '' @ reason) reasons"

definition format_explanation :: "explanation \<Rightarrow> string" where
  "format_explanation e =
     (let lines0 = [''**Summary:** '' @ summary e, [],
                    ''**Release Notes:** '' @ release_notes e, []];
          lines1 = (if risk_reasoning e \<noteq> []
                    then lines0 @ [''**Risk Assessment:**''] @ bullets (risk_reasoning e) @ [Nil]
                    else lines0);
          lines2 = (if security_reasoning e \<noteq> []
                    then lines1 @ [''**Security Considerations:**''] @
                         bullets (security_reasoning e) @ [Nil]
                    else lines1);
          lines3 = (if compatibility_reasoning e \<noteq> []
                    then lines2 @ [''**Compatibility:**''] @
                         bullets (compatibility_reasoning e) @ [Nil]
                    else lines2);
          lines4 = (if sources e \<noteq> []
                    then lines3 @ [''**Sources:**''] @ bullets (sources e)
                    else lines3)
      in join_with [CHR 0x0A] lines4)"

text \<open>
  The conversation log is \<^verbatim>\<open>st.session_state.messages\<close>, a list of entries with a
  role and a content. \<open>on_explain\<close> is the block of \<^verbatim>\<open>main\<close> guarded by
  \<^verbatim>\<open>if explain_button:\<close>; its result is the log after the block, the message passed
  to \<^verbatim>\<open>st.error\<close> if any, and whether \<^verbatim>\<open>st.rerun()\<close> was reached. The composer
  and the formatter do not raise on strings, so the handler of the inner
  \<^verbatim>\<open>except\<close> has no branch here.
\<close>

record message =
  role :: string
  content :: string

record outcome =
  messages :: "message list"
  shown_error :: "string option"
  rerun :: bool

definition on_explain ::
  "message list \<Rightarrow> bool \<Rightarrow> string \<Rightarrow> string \<Rightarrow> string \<Rightarrow> string \<Rightarrow> string \<Rightarrow> outcome"
where
  "on_explain log explain_button ecosystem package old_version new_version ctx =
     (if explain_button then
        (if package = [] \<or> old_version = [] \<or> new_version = [] then
           \<lparr>messages = log,
            shown_error = Some ''Please fill in package name, old version, and new version.'',
            rerun = False\<rparr>
         else
           (let user_query0 = ''Explain upgrading '' @ package @ '' from '' @ old_version @
                              '' to '' @ new_version;
                user_query = (if ctx \<noteq> [] then user_query0 @ '' (Context: '' @ ctx @ '')''
                              else user_query0);
                log1 = log @ [\<lparr>role = ''user'', content = user_query\<rparr>];
                explained = explain_version_choice package old_version new_version ecosystem
                              (if ctx \<noteq> [] then Some ctx else None);
                formatted_response = format_explanation explained;
                log2 = log1 @ [\<lparr>role = ''assistant'', content = formatted_response\<rparr>]
            in \<lparr>messages = log2, shown_error = None, rerun = True\<rparr>))
      else \<lparr>messages = log, shown_error = None, rerun = False\<rparr>)"

section \<open>Notions of the specification\<close>

text \<open>
  The parser as the specification words it: split on the dot, keep at most three
  fields, read each as a number, fill the missing trailing fields with zero, and give
  the triple of zeros as a whole when any kept field fails to parse.
\<close>

definition parse_by_spec :: "string \<Rightarrow> int \<times> int \<times> int" where
  "parse_by_spec version =
     (let fields = take 3 (split_on CHR ''.'' version);
          numbers = map py_int fields
      in if \<exists>r \<in> set numbers. isl r then (0, 0, 0)
         else (let padded = map projr numbers @ [0, 0, 0]
               in (padded ! 0, padded ! 1, padded ! 2)))"

text \<open>
  The lexicographic order on the parsed triples, which is the order of Python tuples.
\<close>

definition triple_lex_le :: "int \<times> int \<times> int \<Rightarrow> int \<times> int \<times> int \<Rightarrow> bool" where
  "triple_lex_le s t =
     (fst s < fst t \<or>
      (fst s = fst t \<and>
         (fst (snd s) < fst (snd t) \<or>
          (fst (snd s) = fst (snd t) \<and> snd (snd s) \<le> snd (snd t)))))"

text \<open>
  The classifier as the specification words it: go through the fields in the order
  major, minor, patch and name the first one where the new number strictly exceeds the
  old number; without such a field the answer is \<open>unknown\<close>.
\<close>

definition classify_by_spec :: "string \<Rightarrow> string \<Rightarrow> string" where
  "classify_by_spec old_version new_version =
     (let old = parse_version old_version;
          new = parse_version new_version;
          fields = [(''major'', fst old, fst new),
                    (''minor'', fst (snd old), fst (snd new)),
                    (''patch'', snd (snd old), snd (snd new))]
      in case find (\<lambda>(name, o_val, n_val). o_val < n_val) fields of
           Some (name, o_val, n_val) \<Rightarrow> name
         | None \<Rightarrow> ''unknown'')"

text \<open>
  The services that declare the package, with the version each has on record, in the
  order of the table; the two forms of entry the checker writes; the major field of a
  version string.
\<close>

fun dependents :: "service_table \<Rightarrow> string \<Rightarrow> (string \<times> string) list" where
  "dependents [] package = []"
| "dependents ((service_name, packages) # rest) package =
     (case packages package of
        None \<Rightarrow> dependents rest package
      | Some service_version \<Rightarrow> (service_name, service_version) # dependents rest package)"

definition uses_line :: "string \<times> string \<Rightarrow> string" where
  "uses_line d = fst d @ '' uses '' @ snd d"

definition mismatch_line :: "string \<times> string \<Rightarrow> string" where
  "mismatch_line d = fst d @ '' uses '' @ snd d @ '' (major version mismatch)''"

definition major_of :: "string \<Rightarrow> int" where
  "major_of version = fst (parse_version version)"

text \<open>
  A service is mentioned by a context when its name occurs in the context text, case
  ignored; the service the narrowing step looks at is the first one mentioned, in the
  order of the table.
\<close>

definition mentions :: "string \<Rightarrow> string \<Rightarrow> bool" where
  "mentions ctx service_name = substring_in (lower service_name) (lower ctx)"

definition first_mentioned :: "service_table \<Rightarrow> string \<Rightarrow> (string \<times> (string \<rightharpoonup> string)) option" where
  "first_mentioned table ctx = find (\<lambda>entry. mentions ctx (fst entry)) table"

text \<open>
  The lines of the explanation, named after what they say: the four lines of the
  security reasoning, the citations of the source list, the three summaries, the
  baseline of the risk reasoning and the three lines of the compatibility reasoning.
\<close>

definition vulnerable_line :: "string \<Rightarrow> string list \<Rightarrow> string" where
  "vulnerable_line old_version issues =
     lock_mark @ '' The old version ('' @ old_version @
     '') has known security vulnerabilities: '' @ join_with '', '' issues"

definition resolved_line :: "string \<Rightarrow> string" where
  "resolved_line new_version =
     check_mark @ '' The new version ('' @ new_version @
     '') appears to address these security issues.''"

definition clean_line :: "string \<Rightarrow> string" where
  "clean_line old_version =
     check_mark @ '' No known security issues found for version '' @ old_version @ ''.''"

definition warning_line :: "string \<Rightarrow> string list \<Rightarrow> string" where
  "warning_line new_version issues =
     warn_mark @ '' WARNING: The new version ('' @ new_version @
     '') has known security issues: '' @ join_with '', '' issues"

definition missing_notes :: string where
  "missing_notes = ''No release notes available.''"

definition release_source :: "string \<Rightarrow> string \<Rightarrow> string" where
  "release_source package new_version = ''Release notes for '' @ package @ '' '' @ new_version"

definition advisory_source :: "string \<Rightarrow> string \<Rightarrow> string" where
  "advisory_source package old_version =
     ''Security advisories for '' @ package @ '' '' @ old_version"

definition incident_source :: "string \<Rightarrow> string \<Rightarrow> string" where
  "incident_source package old_version =
     ''Internal incident reports for '' @ package @ '' '' @ old_version"

definition matrix_source :: string where
  "matrix_source = ''Internal compatibility matrix''"

definition major_summary :: "string \<Rightarrow> string \<Rightarrow> string" where
  "major_summary old_version new_version =
     ''Major version upgrade from '' @ old_version @ '' to '' @ new_version @
     ''. This may include breaking changes.''"

definition minor_summary :: "string \<Rightarrow> string \<Rightarrow> string" where
  "minor_summary old_version new_version =
     ''Minor version upgrade from '' @ old_version @ '' to '' @ new_version @
     ''. New features and improvements expected.''"

definition patch_summary :: "string \<Rightarrow> string \<Rightarrow> string" where
  "patch_summary old_version new_version =
     ''Patch upgrade from '' @ old_version @ '' to '' @ new_version @
     ''. Bug fixes and security patches.''"

definition risk_baseline :: "string \<Rightarrow> string" where
  "risk_baseline bump =
     (if bump = ''major'' then
        ''This is a major version upgrade, which typically includes breaking changes. Review the release notes carefully and plan for migration.''
      else if bump = ''minor'' then
        ''This is a minor version upgrade, which should be backward compatible but may introduce new features.''
      else
        ''This is a patch upgrade, which should be low risk and focused on bug fixes.'')"

definition compatible_line :: "string list \<Rightarrow> string" where
  "compatible_line entries =
     check_mark @ '' Compatible versions found: '' @ join_with '', '' entries"

definition concerns_line :: "string list \<Rightarrow> string" where
  "concerns_line entries =
     warn_mark @ '' Potential compatibility concerns: '' @ join_with '', '' entries"

definition no_data_line :: "string \<Rightarrow> string" where
  "no_data_line package =
     info_mark @ '' No compatibility data found for other services using '' @ package @ ''.''"

section \<open>Properties of the string functions\<close>

lemma split_on_not_Nil: "split_on c s \<noteq> []"
  by (induction s) (auto split: list.splits)

lemma length_split_on_pos: "0 < length (split_on c s)"
  using split_on_not_Nil [of c s] by simp

lemma split_on_append_sep: "split_on c (s @ c # t) = split_on c s @ split_on c t"
proof (induction s)
  case Nil
  show ?case by simp
next
  case (Cons x s)
  have ne: "split_on c s \<noteq> []" by (rule split_on_not_Nil)
  show ?case
  proof (cases "x = c")
    case True
    with Cons show ?thesis by simp
  next
    case False
    with Cons ne show ?thesis by (cases "split_on c s") auto
  qed
qed

lemma split_on_without_sep: "c \<notin> set s \<Longrightarrow> split_on c s = [s]"
  by (induction s) auto

lemma split_on_parts_free: "p \<in> set (split_on c s) \<Longrightarrow> c \<notin> set p"
proof (induction s arbitrary: p)
  case Nil
  then show ?case by simp
next
  case (Cons x s)
  obtain q qs where q: "split_on c s = q # qs"
    using split_on_not_Nil [of c s] by (cases "split_on c s") auto
  show ?case
  proof (cases "x = c")
    case True
    with Cons.prems Cons.IH show ?thesis by auto
  next
    case False
    with Cons.prems q have "p = x # q \<or> p \<in> set qs" by auto
    moreover have "c \<notin> set q" using Cons.IH [of q] q by simp
    moreover have "p \<in> set qs \<Longrightarrow> c \<notin> set p" using Cons.IH [of p] q by simp
    ultimately show ?thesis using False by auto
  qed
qed

lemma join_split_on: "join_with [c] (split_on c s) = s"
proof (induction s)
  case Nil
  show ?case by simp
next
  case (Cons x s)
  obtain q qs where q: "split_on c s = q # qs"
    using split_on_not_Nil [of c s] by (cases "split_on c s") auto
  show ?case
  proof (cases "x = c")
    case True
    with Cons q show ?thesis by simp
  next
    case False
    with Cons q show ?thesis by (cases qs) auto
  qed
qed

section \<open>Properties of the version comparator\<close>

lemma parse_version_of_parts:
  assumes "split_on CHR ''.'' version = parts"
  shows "parse_version version =
     (case parts of
        [a] \<Rightarrow> (case py_int a of Inl e \<Rightarrow> (0, 0, 0) | Inr x \<Rightarrow> (x, 0, 0))
      | [a, b] \<Rightarrow>
          (case py_int a of Inl e \<Rightarrow> (0, 0, 0)
           | Inr x \<Rightarrow> (case py_int b of Inl e \<Rightarrow> (0, 0, 0) | Inr y \<Rightarrow> (x, y, 0)))
      | a # b # c # rest \<Rightarrow>
          (case py_int a of Inl e \<Rightarrow> (0, 0, 0)
           | Inr x \<Rightarrow>
               (case py_int b of Inl e \<Rightarrow> (0, 0, 0)
                | Inr y \<Rightarrow> (case py_int c of Inl e \<Rightarrow> (0, 0, 0) | Inr z \<Rightarrow> (x, y, z))))
      | [] \<Rightarrow> (0, 0, 0))"
  using assms split_on_not_Nil [of "CHR ''.''" version]
  by (auto simp: parse_version_def parse_version_try_def split: list.splits sum.splits)

lemma parse_by_spec_of_parts:
  assumes "split_on CHR ''.'' version = parts"
  shows "parse_by_spec version =
     (case parts of
        [a] \<Rightarrow> (case py_int a of Inl e \<Rightarrow> (0, 0, 0) | Inr x \<Rightarrow> (x, 0, 0))
      | [a, b] \<Rightarrow>
          (case py_int a of Inl e \<Rightarrow> (0, 0, 0)
           | Inr x \<Rightarrow> (case py_int b of Inl e \<Rightarrow> (0, 0, 0) | Inr y \<Rightarrow> (x, y, 0)))
      | a # b # c # rest \<Rightarrow>
          (case py_int a of Inl e \<Rightarrow> (0, 0, 0)
           | Inr x \<Rightarrow>
               (case py_int b of Inl e \<Rightarrow> (0, 0, 0)
                | Inr y \<Rightarrow> (case py_int c of Inl e \<Rightarrow> (0, 0, 0) | Inr z \<Rightarrow> (x, y, z))))
      | [] \<Rightarrow> (0, 0, 0))"
  using assms split_on_not_Nil [of "CHR ''.''" version]
  by (auto simp: parse_by_spec_def split: list.splits sum.splits)

lemma parse_version_refines: "parse_version version = parse_by_spec version"
  by (simp add: parse_version_of_parts [OF refl] parse_by_spec_of_parts [OF refl])

lemma parse_version_ignores_tail:
  assumes "3 \<le> length (split_on CHR ''.'' version)"
  shows "parse_version (version @ CHR ''.'' # extra) = parse_version version"
proof -
  obtain a b c rest where p: "split_on CHR ''.'' version = a # b # c # rest"
    using assms by (auto simp: numeral_3_eq_3 Suc_le_length_iff)
  have "split_on CHR ''.'' (version @ CHR ''.'' # extra) =
          a # b # c # (rest @ split_on CHR ''.'' extra)"
    by (simp add: split_on_append_sep p)
  then show ?thesis
    by (simp add: parse_version_of_parts [OF refl] p)
qed

lemma parse_version_failure:
  assumes "i < 3" "i < length (split_on CHR ''.'' version)"
    and "isl (py_int (split_on CHR ''.'' version ! i))"
  shows "parse_version version = (0, 0, 0)"
proof -
  have "i = 0 \<or> i = 1 \<or> i = 2" using assms(1) by arith
  then show ?thesis
    using assms(2,3)
    by (auto simp: parse_version_of_parts [OF refl] split: list.splits sum.splits)
qed

lemmas py_int_eval =
  py_int_def strip_def is_space_def digit_val_def digits_value_def int_max_str_digits_def

lemmas parse_version_eval = parse_version_def parse_version_try_def py_int_eval

text \<open>
  Claim C3. For every input string, \<open>parse_version\<close> splits on the dot, ignores every
  field after the third, reads a missing trailing field as zero, and returns the whole
  triple \<open>(0, 0, 0)\<close> as soon as one of the fields it reads fails to parse, never a
  partial result: it is the parser of the specification. A fourth field appended to a
  string of three or more fields changes nothing. In particular the four sample strings
  parse to \<open>(2, 1, 0)\<close>, \<open>(1, 5, 0)\<close>, \<open>(0, 0, 0)\<close> and \<open>(1, 2, 3)\<close>.
\<close>

theorem parse_version_spec:
  "parse_version version = parse_by_spec version \<and>
   (3 \<le> length (split_on CHR ''.'' version) \<longrightarrow>
      parse_version (version @ CHR ''.'' # extra) = parse_version version) \<and>
   (i < 3 \<and> i < length (split_on CHR ''.'' version) \<and>
      isl (py_int (split_on CHR ''.'' version ! i)) \<longrightarrow>
      parse_version version = (0, 0, 0)) \<and>
   parse_version ''2.1.0'' = (2, 1, 0) \<and>
   parse_version ''1.5'' = (1, 5, 0) \<and>
   parse_version ''abc'' = (0, 0, 0) \<and>
   parse_version ''1.2.3.4'' = (1, 2, 3)"
proof -
  have a: "parse_version ''2.1.0'' = (2, 1, 0)" by (simp add: parse_version_eval)
  have b: "parse_version ''1.5'' = (1, 5, 0)" by (simp add: parse_version_eval)
  have c: "parse_version ''abc'' = (0, 0, 0)" by (simp add: parse_version_eval)
  have d: "parse_version ''1.2.3.4'' = (1, 2, 3)" by (simp add: parse_version_eval)
  show ?thesis
    using parse_version_refines [of version] parse_version_ignores_tail [of version extra]
      parse_version_failure [of i version] a b c d
    by blast
qed

theorem parse_version_spec_witness:
  "3 \<le> length (split_on CHR ''.'' ''1.2.3'') \<and>
   parse_version (''1.2.3'' @ CHR ''.'' # ''rc1'') = parse_version ''1.2.3'' \<and>
   parse_version ''1.2.3'' = (1, 2, 3) \<and>
   (1 :: nat) < 3 \<and> 1 < length (split_on CHR ''.'' ''1.x.3'') \<and>
   isl (py_int (split_on CHR ''.'' ''1.x.3'' ! 1)) \<and>
   parse_version ''1.x.3'' = (0, 0, 0)"
proof -
  have l: "3 \<le> length (split_on CHR ''.'' ''1.2.3'')" by simp
  have v: "parse_version ''1.2.3'' = (1, 2, 3)" by (simp add: parse_version_eval)
  have f: "(1 :: nat) < 3 \<and> 1 < length (split_on CHR ''.'' ''1.x.3'') \<and>
           isl (py_int (split_on CHR ''.'' ''1.x.3'' ! 1))"
    by (simp add: py_int_eval)
  show ?thesis
    using l v f
      parse_version_spec [of "''1.2.3''" "''rc1''" 0, THEN conjunct2, THEN conjunct1]
      parse_version_spec [of "''1.x.3''" "[]" 1, THEN conjunct2, THEN conjunct2, THEN conjunct1]
    by simp
qed

text \<open>
  Claim C1. Whenever the triple of the new version is at most the triple of the old one
  in the lexicographic order, \<open>get_bump_type\<close> should answer \<open>unknown\<close>. The function
  does not: its chain of tests looks at the minor field, and then at the patch field,
  without asking that the fields before it are equal. From 2.0.0 to 1.5.0 the new triple
  is the smaller one, yet the answer is \<open>minor\<close> and the summary announces a minor
  version upgrade, while the downgrades from 2.1.0 to 2.0.0 and from 3.0.0 to 2.0.0 get
  the answer \<open>unknown\<close>.
\<close>

theorem get_bump_type_downgrade_as_minor:
  "triple_lex_le (parse_version ''1.5.0'') (parse_version ''2.0.0'') \<and>
   get_bump_type ''2.0.0'' ''1.5.0'' = ''minor'' \<and>
   summary (explain_version_choice ''auth-lib'' ''2.0.0'' ''1.5.0'' ''pip'' None) =
     ''Minor version upgrade from 2.0.0 to 1.5.0. New features and improvements expected.'' \<and>
   triple_lex_le (parse_version ''2.0.0'') (parse_version ''2.1.0'') \<and>
   get_bump_type ''2.1.0'' ''2.0.0'' = ''unknown'' \<and>
   triple_lex_le (parse_version ''2.0.0'') (parse_version ''3.0.0'') \<and>
   get_bump_type ''3.0.0'' ''2.0.0'' = ''unknown''"
proof -
  have p: "parse_version ''1.5.0'' = (1, 5, 0)" "parse_version ''2.0.0'' = (2, 0, 0)"
    "parse_version ''2.1.0'' = (2, 1, 0)" "parse_version ''3.0.0'' = (3, 0, 0)"
    by (simp_all add: parse_version_eval)
  have b: "get_bump_type ''2.0.0'' ''1.5.0'' = ''minor''"
    by (simp add: get_bump_type_def p)
  have s: "summary (explain_version_choice ''auth-lib'' ''2.0.0'' ''1.5.0'' ''pip'' None) =
     ''Minor version upgrade from 2.0.0 to 1.5.0. New features and improvements expected.''"
    by (simp add: explain_version_choice_def Let_def b)
  show ?thesis
    using b s by (simp add: triple_lex_le_def get_bump_type_def p)
qed

theorem get_bump_type_downgrade_as_minor_witness:
  "triple_lex_le (parse_version ''1.5.0'') (parse_version ''2.0.0'') \<and>
   get_bump_type ''2.0.0'' ''1.5.0'' \<noteq> ''unknown''"
  using get_bump_type_downgrade_as_minor by simp

text \<open>
  Claim C2. For every pair of version strings, \<open>get_bump_type\<close> parses both and names
  the first of major, minor, patch in which the new number strictly exceeds the old one,
  and answers \<open>unknown\<close> when no field of the new triple exceeds its counterpart.
\<close>

theorem get_bump_type_spec:
  "get_bump_type old_version new_version = classify_by_spec old_version new_version \<and>
   (parse_version old_version = (a, b, c) \<and> parse_version new_version = (x, y, z) \<longrightarrow>
      (a < x \<longrightarrow> get_bump_type old_version new_version = ''major'') \<and>
      (x \<le> a \<and> b < y \<longrightarrow> get_bump_type old_version new_version = ''minor'') \<and>
      (x \<le> a \<and> y \<le> b \<and> c < z \<longrightarrow> get_bump_type old_version new_version = ''patch'') \<and>
      (x \<le> a \<and> y \<le> b \<and> z \<le> c \<longrightarrow> get_bump_type old_version new_version = ''unknown''))"
  by (auto simp: get_bump_type_def classify_by_spec_def Let_def)

theorem get_bump_type_spec_witness:
  "parse_version ''1.9.9'' = (1, 9, 9) \<and> parse_version ''2.0.0'' = (2, 0, 0) \<and>
   get_bump_type ''1.9.9'' ''2.0.0'' = ''major'' \<and>
   parse_version ''2.1.0'' = (2, 1, 0) \<and> parse_version ''2.2.0'' = (2, 2, 0) \<and>
   get_bump_type ''2.1.0'' ''2.2.0'' = ''minor'' \<and>
   parse_version ''1.5.0'' = (1, 5, 0) \<and> parse_version ''1.5.1'' = (1, 5, 1) \<and>
   get_bump_type ''1.5.0'' ''1.5.1'' = ''patch'' \<and>
   get_bump_type ''1.5.1'' ''1.5.0'' = ''unknown''"
proof -
  have p: "parse_version ''1.9.9'' = (1, 9, 9)" "parse_version ''2.0.0'' = (2, 0, 0)"
    "parse_version ''2.1.0'' = (2, 1, 0)" "parse_version ''2.2.0'' = (2, 2, 0)"
    "parse_version ''1.5.0'' = (1, 5, 0)" "parse_version ''1.5.1'' = (1, 5, 1)"
    by (simp_all add: parse_version_eval)
  show ?thesis
    using p
      get_bump_type_spec [of "''1.9.9''" "''2.0.0''" 1 9 9 2 0 0, THEN conjunct2]
      get_bump_type_spec [of "''2.1.0''" "''2.2.0''" 2 1 0 2 2 0, THEN conjunct2]
      get_bump_type_spec [of "''1.5.0''" "''1.5.1''" 1 5 0 1 5 1, THEN conjunct2]
      get_bump_type_spec [of "''1.5.1''" "''1.5.0''" 1 5 1 1 5 0, THEN conjunct2]
    by simp
qed

section \<open>Properties of the compatibility checker\<close>

lemma starts_with_iff: "starts_with s p \<longleftrightarrow> (\<exists>post. s = p @ post)"
  by (induction s p rule: starts_with.induct) auto

lemma substring_in_iff: "substring_in sub s \<longleftrightarrow> (\<exists>pre post. s = pre @ sub @ post)"
proof (induction s)
  case Nil
  show ?case by auto
next
  case (Cons c cs)
  show ?case
  proof
    assume "substring_in sub (c # cs)"
    then consider "starts_with (c # cs) sub" | "substring_in sub cs" by auto
    then show "\<exists>pre post. c # cs = pre @ sub @ post"
    proof cases
      case 1
      then obtain post where "c # cs = sub @ post" by (auto simp: starts_with_iff)
      then have "c # cs = [] @ sub @ post" by simp
      then show ?thesis by blast
    next
      case 2
      then obtain pre post where "cs = pre @ sub @ post" using Cons.IH by auto
      then have "c # cs = (c # pre) @ sub @ post" by simp
      then show ?thesis by blast
    qed
  next
    assume "\<exists>pre post. c # cs = pre @ sub @ post"
    then obtain pre post where e: "c # cs = pre @ sub @ post" by blast
    show "substring_in sub (c # cs)"
    proof (cases pre)
      case Nil
      with e have "starts_with (c # cs) sub" by (auto simp: starts_with_iff)
      then show ?thesis by simp
    next
      case (Cons a pre')
      with e have "cs = pre' @ sub @ post" by simp
      then have "substring_in sub cs" using Cons.IH by blast
      then show ?thesis by simp
    qed
  qed
qed

lemma full_scan_lists:
  "full_scan table package new_version (cs, ics) =
     (cs @ map uses_line
             (filter (\<lambda>d. major_of new_version = major_of (snd d)) (dependents table package)),
      ics @ map mismatch_line
             (filter (\<lambda>d. major_of (snd d) < major_of new_version) (dependents table package)))"
proof (induction table arbitrary: cs ics)
  case Nil
  show ?case by simp
next
  case (Cons entry table)
  obtain service_name packages where e: "entry = (service_name, packages)"
    by (cases entry)
  show ?case
  proof (cases "packages package")
    case None
    with e Cons show ?thesis by simp
  next
    case (Some service_version)
    with e Cons show ?thesis
      by (simp add: Let_def major_of_def uses_line_def mismatch_line_def)
  qed
qed

lemma dependents_member:
  "(service_name, packages) \<in> set table \<Longrightarrow> packages package = Some service_version \<Longrightarrow>
   (service_name, service_version) \<in> set (dependents table package)"
proof (induction table)
  case Nil
  then show ?case by simp
next
  case (Cons entry table)
  obtain s pk where e: "entry = (s, pk)" by (cases entry)
  show ?case
  proof (cases "entry = (service_name, packages)")
    case True
    with e Cons.prems show ?thesis by simp
  next
    case False
    with Cons have "(service_name, service_version) \<in> set (dependents table package)"
      by simp
    with e show ?thesis by (simp split: option.splits)
  qed
qed

lemma full_scan_skips_lower:
  assumes "packages package = Some service_version"
    and "major_of new_version < major_of service_version"
  shows "full_scan table package new_version (cs, ics) =
         full_scan (removeAll (service_name, packages) table) package new_version (cs, ics)"
proof -
  have "filter (\<lambda>d. major_of new_version = major_of (snd d)) (dependents table package) =
        filter (\<lambda>d. major_of new_version = major_of (snd d))
          (dependents (removeAll (service_name, packages) table) package) \<and>
        filter (\<lambda>d. major_of (snd d) < major_of new_version) (dependents table package) =
        filter (\<lambda>d. major_of (snd d) < major_of new_version)
          (dependents (removeAll (service_name, packages) table) package)"
  proof (induction table)
    case Nil
    show ?case by simp
  next
    case (Cons entry table)
    obtain s pk where e: "entry = (s, pk)" by (cases entry)
    show ?case
    proof (cases "entry = (service_name, packages)")
      case True
      with e assms Cons show ?thesis by simp
    next
      case False
      with e Cons show ?thesis by (auto split: option.splits)
    qed
  qed
  then show ?thesis by (simp add: full_scan_lists)
qed

lemma context_scan_first:
  "context_scan table package (lower ctx) acc =
     (case first_mentioned table ctx of
        None \<Rightarrow> acc
      | Some entry \<Rightarrow>
          (case snd entry package of
             None \<Rightarrow> acc
           | Some service_version \<Rightarrow> acc @ [uses_line (fst entry, service_version)]))"
proof (induction table)
  case Nil
  show ?case by (simp add: first_mentioned_def)
next
  case (Cons entry table)
  obtain s pk where e: "entry = (s, pk)" by (cases entry)
  show ?case
  proof (cases "mentions ctx s")
    case True
    with e show ?thesis
      by (simp add: first_mentioned_def mentions_def uses_line_def split: option.splits)
  next
    case False
    with e Cons show ?thesis
      by (simp add: first_mentioned_def mentions_def)
  qed
qed

lemma first_mentioned_member:
  "first_mentioned table ctx = Some entry \<Longrightarrow> entry \<in> set table \<and> mentions ctx (fst entry)"
  by (auto simp: first_mentioned_def find_Some_iff)

lemma check_compatibility_lists:
  "check_compatibility package new_version ctx =
     \<lparr>compatible =
        (if truthy ctx then context_scan COMPATIBILITY_MATRIX package (lower (the ctx)) [] else []) @
        map uses_line
          (filter (\<lambda>d. major_of new_version = major_of (snd d))
             (dependents COMPATIBILITY_MATRIX package)),
      incompatible =
        map mismatch_line
          (filter (\<lambda>d. major_of (snd d) < major_of new_version)
             (dependents COMPATIBILITY_MATRIX package))\<rparr>"
  by (simp add: check_compatibility_def full_scan_lists Let_def)

text \<open>
  Claim C4. The full scan of \<open>check_compatibility\<close> adds to the compatible list exactly
  the entries of the services that declare the package with the same major field as the
  candidate version, and to the incompatible list exactly the entries, marked as a major
  version mismatch, of those with a smaller major field, both in table order. So a
  declaring service with an equal major is entered as compatible, one with a smaller
  major as incompatible, and one with a greater major leaves both lists as they would be
  without it. The incompatible list of \<open>check_compatibility\<close> and, without a context,
  its compatible list are the lists of this scan.
\<close>

theorem full_scan_classifies:
  "full_scan table package new_version (cs, ics) =
     (cs @ map uses_line
             (filter (\<lambda>d. major_of new_version = major_of (snd d)) (dependents table package)),
      ics @ map mismatch_line
             (filter (\<lambda>d. major_of (snd d) < major_of new_version) (dependents table package))) \<and>
   ((service_name, packages) \<in> set table \<and> packages package = Some service_version \<longrightarrow>
      (major_of new_version = major_of service_version \<longrightarrow>
         uses_line (service_name, service_version) \<in>
           set (fst (full_scan table package new_version (cs, ics)))) \<and>
      (major_of service_version < major_of new_version \<longrightarrow>
         mismatch_line (service_name, service_version) \<in>
           set (snd (full_scan table package new_version (cs, ics)))) \<and>
      (major_of new_version < major_of service_version \<longrightarrow>
         full_scan table package new_version (cs, ics) =
         full_scan (removeAll (service_name, packages) table) package new_version (cs, ics))) \<and>
   compatible (check_compatibility package new_version None) =
     map uses_line
       (filter (\<lambda>d. major_of new_version = major_of (snd d))
          (dependents COMPATIBILITY_MATRIX package)) \<and>
   incompatible (check_compatibility package new_version ctx) =
     map mismatch_line
       (filter (\<lambda>d. major_of (snd d) < major_of new_version)
          (dependents COMPATIBILITY_MATRIX package))"
proof -
  have member: "(service_name, packages) \<in> set table \<and> packages package = Some service_version
    \<longrightarrow> (service_name, service_version) \<in> set (dependents table package)"
    using dependents_member by blast
  have same: "(service_name, packages) \<in> set table \<and> packages package = Some service_version
    \<longrightarrow> major_of new_version = major_of service_version
    \<longrightarrow> uses_line (service_name, service_version) \<in>
           set (fst (full_scan table package new_version (cs, ics)))"
    using member by (auto simp: full_scan_lists)
  have higher: "(service_name, packages) \<in> set table \<and> packages package = Some service_version
    \<longrightarrow> major_of service_version < major_of new_version
    \<longrightarrow> mismatch_line (service_name, service_version) \<in>
           set (snd (full_scan table package new_version (cs, ics)))"
    using member by (auto simp: full_scan_lists)
  have lower: "packages package = Some service_version
    \<longrightarrow> major_of new_version < major_of service_version
    \<longrightarrow> full_scan table package new_version (cs, ics) =
         full_scan (removeAll (service_name, packages) table) package new_version (cs, ics)"
    using full_scan_skips_lower by blast
  have whole: "compatible (check_compatibility package new_version None) =
     map uses_line
       (filter (\<lambda>d. major_of new_version = major_of (snd d))
          (dependents COMPATIBILITY_MATRIX package))"
    by (simp add: check_compatibility_lists truthy_def)
  have inc: "incompatible (check_compatibility package new_version ctx) =
     map mismatch_line
       (filter (\<lambda>d. major_of (snd d) < major_of new_version)
          (dependents COMPATIBILITY_MATRIX package))"
    by (simp add: check_compatibility_lists)
  show ?thesis
    using full_scan_lists [of table package new_version cs ics] same higher lower whole inc
    by blast
qed

theorem full_scan_classifies_witness:
  "(''User Service'', snd (COMPATIBILITY_MATRIX ! 1)) \<in> set COMPATIBILITY_MATRIX \<and>
   snd (COMPATIBILITY_MATRIX ! 1) ''auth-lib'' = Some ''3.0.0'' \<and>
   major_of ''3.4.0'' = major_of ''3.0.0'' \<and>
   uses_line (''User Service'', ''3.0.0'') \<in>
     set (fst (full_scan COMPATIBILITY_MATRIX ''auth-lib'' ''3.4.0'' ([], []))) \<and>
   major_of ''3.0.0'' < major_of ''4.0.0'' \<and>
   mismatch_line (''User Service'', ''3.0.0'') \<in>
     set (snd (full_scan COMPATIBILITY_MATRIX ''auth-lib'' ''4.0.0'' ([], []))) \<and>
   major_of ''2.9.0'' < major_of ''3.0.0'' \<and>
   full_scan COMPATIBILITY_MATRIX ''auth-lib'' ''2.9.0'' ([], []) =
     full_scan (removeAll (''User Service'', snd (COMPATIBILITY_MATRIX ! 1)) COMPATIBILITY_MATRIX)
       ''auth-lib'' ''2.9.0'' ([], []) \<and>
   full_scan COMPATIBILITY_MATRIX ''auth-lib'' ''2.9.0'' ([], []) =
     ([''Checkout Service uses 2.2.0'', ''API Gateway uses 2.2.0''], []) \<and>
   full_scan COMPATIBILITY_MATRIX ''auth-lib'' ''3.4.0'' ([], []) =
     ([''User Service uses 3.0.0''],
      [''Checkout Service uses 2.2.0 (major version mismatch)'',
       ''API Gateway uses 2.2.0 (major version mismatch)''])"
proof -
  let ?pk = "snd (COMPATIBILITY_MATRIX ! 1)"
  have e: "(''User Service'', ?pk) \<in> set COMPATIBILITY_MATRIX"
    by (simp add: COMPATIBILITY_MATRIX_def)
  have d: "?pk ''auth-lib'' = Some ''3.0.0''"
    by (simp add: COMPATIBILITY_MATRIX_def)
  have v1: "major_of ''3.4.0'' = major_of ''3.0.0''"
    by (simp add: major_of_def parse_version_eval)
  have v2: "major_of ''3.0.0'' < major_of ''4.0.0''"
    by (simp add: major_of_def parse_version_eval)
  have v3: "major_of ''2.9.0'' < major_of ''3.0.0''"
    by (simp add: major_of_def parse_version_eval)
  have a: "uses_line (''User Service'', ''3.0.0'') \<in>
     set (fst (full_scan COMPATIBILITY_MATRIX ''auth-lib'' ''3.4.0'' ([], [])))"
    using e d v1
      full_scan_classifies [of COMPATIBILITY_MATRIX "''auth-lib''" "''3.4.0''" "[]" "[]"
        "''User Service''" ?pk "''3.0.0''" None]
    by blast
  have b: "mismatch_line (''User Service'', ''3.0.0'') \<in>
     set (snd (full_scan COMPATIBILITY_MATRIX ''auth-lib'' ''4.0.0'' ([], [])))"
    using e d v2
      full_scan_classifies [of COMPATIBILITY_MATRIX "''auth-lib''" "''4.0.0''" "[]" "[]"
        "''User Service''" ?pk "''3.0.0''" None]
    by blast
  have c: "full_scan COMPATIBILITY_MATRIX ''auth-lib'' ''2.9.0'' ([], []) =
     full_scan (removeAll (''User Service'', ?pk) COMPATIBILITY_MATRIX)
       ''auth-lib'' ''2.9.0'' ([], [])"
    using e d v3
      full_scan_classifies [of COMPATIBILITY_MATRIX "''auth-lib''" "''2.9.0''" "[]" "[]"
        "''User Service''" ?pk "''3.0.0''" None]
    by blast
  have r: "full_scan COMPATIBILITY_MATRIX ''auth-lib'' ''2.9.0'' ([], []) =
             ([''Checkout Service uses 2.2.0'', ''API Gateway uses 2.2.0''], [])"
    by (simp add: COMPATIBILITY_MATRIX_def parse_version_eval)
  have r': "full_scan COMPATIBILITY_MATRIX ''auth-lib'' ''3.4.0'' ([], []) =
     ([''User Service uses 3.0.0''],
      [''Checkout Service uses 2.2.0 (major version mismatch)'',
       ''API Gateway uses 2.2.0 (major version mismatch)''])"
    by (simp add: COMPATIBILITY_MATRIX_def parse_version_eval)
  show ?thesis
    using e d v1 v2 v3 a b c r r' by blast
qed

text \<open>
  Claim C5. With a non-empty context, \<open>check_compatibility\<close> first goes through the
  services in table order, looking for a name that occurs in the context text, case
  ignored. It stops at the first such service: when that service declares the package,
  its entry is put in the compatible list with no look at the versions, and nothing
  is recorded otherwise. The full scan then appends its own entries, so a service found
  by both steps is listed twice, as Checkout Service is for payments-core. An absent or
  empty context skips the first step.
\<close>

theorem context_scan_first_match:
  "context_scan table package (lower ctx) acc =
     (case first_mentioned table ctx of
        None \<Rightarrow> acc
      | Some entry \<Rightarrow>
          (case snd entry package of
             None \<Rightarrow> acc
           | Some service_version \<Rightarrow> acc @ [uses_line (fst entry, service_version)])) \<and>
   (ctx \<noteq> [] \<longrightarrow>
      compatible (check_compatibility package new_version (Some ctx)) =
        context_scan COMPATIBILITY_MATRIX package (lower ctx) [] @
        compatible (check_compatibility package new_version None) \<and>
      incompatible (check_compatibility package new_version (Some ctx)) =
        incompatible (check_compatibility package new_version None)) \<and>
   check_compatibility package new_version (Some []) =
     check_compatibility package new_version None \<and>
   (first_mentioned table ctx = Some (service_name, packages) \<and>
    packages package = Some service_version \<and>
    major_of new_version = major_of service_version \<longrightarrow>
      2 \<le> count_list
             (fst (full_scan table package new_version
                     (context_scan table package (lower ctx) [], [])))
             (uses_line (service_name, service_version))) \<and>
   compatible (check_compatibility ''payments-core'' ''3.9.9''
                 (Some ''Checkout Service, prod rollout'')) =
     [''Checkout Service uses 3.2.0'', ''Checkout Service uses 3.2.0'']"
proof -
  have narrowed: "ctx \<noteq> [] \<longrightarrow>
      compatible (check_compatibility package new_version (Some ctx)) =
        context_scan COMPATIBILITY_MATRIX package (lower ctx) [] @
        compatible (check_compatibility package new_version None) \<and>
      incompatible (check_compatibility package new_version (Some ctx)) =
        incompatible (check_compatibility package new_version None)"
    by (simp add: check_compatibility_lists truthy_def)
  have empty: "check_compatibility package new_version (Some []) =
     check_compatibility package new_version None"
    by (simp add: check_compatibility_lists truthy_def)
  have twice: "first_mentioned table ctx = Some (service_name, packages) \<and>
    packages package = Some service_version \<and>
    major_of new_version = major_of service_version \<longrightarrow>
      2 \<le> count_list
             (fst (full_scan table package new_version
                     (context_scan table package (lower ctx) [], [])))
             (uses_line (service_name, service_version))"
  proof (intro impI, elim conjE)
    assume f: "first_mentioned table ctx = Some (service_name, packages)"
      and p: "packages package = Some service_version"
      and m: "major_of new_version = major_of service_version"
    let ?line = "uses_line (service_name, service_version)"
    let ?scan = "map uses_line
             (filter (\<lambda>d. major_of new_version = major_of (snd d)) (dependents table package))"
    have "(service_name, packages) \<in> set table"
      using first_mentioned_member [OF f] by simp
    then have "(service_name, service_version) \<in> set (dependents table package)"
      using p by (rule dependents_member)
    with m have "?line \<in> set ?scan" by auto
    then have "count_list ?scan ?line \<noteq> 0" by (simp only: count_list_0_iff not_not)
    then have "0 < count_list ?scan ?line" by simp
    moreover have "context_scan table package (lower ctx) [] = [?line]"
      using f p by (simp add: context_scan_first)
    ultimately show "2 \<le> count_list
             (fst (full_scan table package new_version
                     (context_scan table package (lower ctx) [], []))) ?line"
      by (simp add: full_scan_lists)
  qed
  have sample: "compatible (check_compatibility ''payments-core'' ''3.9.9''
                 (Some ''Checkout Service, prod rollout'')) =
     [''Checkout Service uses 3.2.0'', ''Checkout Service uses 3.2.0'']"
    by code_simp
  show ?thesis
    using context_scan_first [of table package ctx acc] narrowed empty twice sample
    by blast
qed

theorem context_scan_first_match_witness:
  "''user service'' \<noteq> [] \<and>
   compatible (check_compatibility ''auth-lib'' ''2.2.0'' (Some ''user service'')) =
     context_scan COMPATIBILITY_MATRIX ''auth-lib'' (lower ''user service'') [] @
     compatible (check_compatibility ''auth-lib'' ''2.2.0'' None) \<and>
   compatible (check_compatibility ''auth-lib'' ''2.2.0'' (Some ''user service'')) =
     [''User Service uses 3.0.0'', ''Checkout Service uses 2.2.0'', ''API Gateway uses 2.2.0''] \<and>
   first_mentioned COMPATIBILITY_MATRIX ''the API gateway and the checkout service'' =
     Some (''Checkout Service'', snd (COMPATIBILITY_MATRIX ! 0)) \<and>
   snd (COMPATIBILITY_MATRIX ! 0) ''logging-lib'' = Some ''1.5.1'' \<and>
   major_of ''1.7.0'' = major_of ''1.5.1'' \<and>
   2 \<le> count_list
          (fst (full_scan COMPATIBILITY_MATRIX ''logging-lib'' ''1.7.0''
                  (context_scan COMPATIBILITY_MATRIX ''logging-lib''
                     (lower ''the API gateway and the checkout service'') [], [])))
          (uses_line (''Checkout Service'', ''1.5.1''))"
proof -
  let ?pk = "snd (COMPATIBILITY_MATRIX ! 0)"
  let ?ctx = "''the API gateway and the checkout service''"
  have n: "''user service'' \<noteq> []" by simp
  have c: "compatible (check_compatibility ''auth-lib'' ''2.2.0'' (Some ''user service'')) =
     context_scan COMPATIBILITY_MATRIX ''auth-lib'' (lower ''user service'') [] @
     compatible (check_compatibility ''auth-lib'' ''2.2.0'' None)"
    using n context_scan_first_match [of COMPATIBILITY_MATRIX "''auth-lib''" "''user service''"
        "[]" "''2.2.0''" "[]" Map.empty "[]"]
    by blast
  have r: "compatible (check_compatibility ''auth-lib'' ''2.2.0'' (Some ''user service'')) =
     [''User Service uses 3.0.0'', ''Checkout Service uses 2.2.0'', ''API Gateway uses 2.2.0'']"
    by code_simp
  have lo: "lower ''Checkout Service'' = ''checkout service''"
    "lower ?ctx = ''the api gateway and the checkout service''"
    by code_simp+
  have f: "first_mentioned COMPATIBILITY_MATRIX ?ctx = Some (''Checkout Service'', ?pk)"
    by (simp add: first_mentioned_def mentions_def COMPATIBILITY_MATRIX_def lo)
  have d: "?pk ''logging-lib'' = Some ''1.5.1''"
    by (simp add: COMPATIBILITY_MATRIX_def)
  have m: "major_of ''1.7.0'' = major_of ''1.5.1''"
    by (simp add: major_of_def parse_version_eval)
  have t: "2 \<le> count_list
          (fst (full_scan COMPATIBILITY_MATRIX ''logging-lib'' ''1.7.0''
                  (context_scan COMPATIBILITY_MATRIX ''logging-lib'' (lower ?ctx) [], [])))
          (uses_line (''Checkout Service'', ''1.5.1''))"
    using f d m context_scan_first_match [of COMPATIBILITY_MATRIX "''logging-lib''" ?ctx
        "[]" "''1.7.0''" "''Checkout Service''" ?pk "''1.5.1''"]
    by blast
  show ?thesis using n c r f d m t by blast
qed

section \<open>Properties of the explanation composer\<close>

lemma explain_security:
  "security_reasoning (explain_version_choice package old_version new_version ecosystem ctx) =
     (if fst (check_security_issues package old_version new_version) \<noteq> [] then
        vulnerable_line old_version (fst (check_security_issues package old_version new_version)) #
        (if snd (check_security_issues package old_version new_version) = []
         then [resolved_line new_version] else [])
      else [clean_line old_version]) @
     (if snd (check_security_issues package old_version new_version) \<noteq> []
      then [warning_line new_version (snd (check_security_issues package old_version new_version))]
      else [])"
  by (simp add: explain_version_choice_def Let_def vulnerable_line_def resolved_line_def
      clean_line_def warning_line_def)

lemma explain_sources:
  "sources (explain_version_choice package old_version new_version ecosystem ctx) =
     (if release_notes (explain_version_choice package old_version new_version ecosystem ctx)
           \<noteq> missing_notes
      then [release_source package new_version] else []) @
     (if fst (check_security_issues package old_version new_version) \<noteq> []
      then [advisory_source package old_version] else []) @
     (if fst (check_internal_incidents package old_version new_version) \<noteq> []
      then [incident_source package old_version] else []) @
     (if compatible (check_compatibility package new_version ctx) \<noteq> [] \<or>
         incompatible (check_compatibility package new_version ctx) \<noteq> []
      then [matrix_source] else [])"
  by (simp add: explain_version_choice_def Let_def missing_notes_def release_source_def
      advisory_source_def incident_source_def matrix_source_def)

lemma explain_release_notes:
  "release_notes (explain_version_choice package old_version new_version ecosystem ctx) =
     dict_get (dict_get (dict_get RELEASE_METADATA package Map.empty) new_version Map.empty)
       ''notes'' missing_notes"
  by (simp add: explain_version_choice_def Let_def missing_notes_def)

lemma explain_bump_type:
  "bump_type (explain_version_choice package old_version new_version ecosystem ctx) =
     get_bump_type old_version new_version"
  by (simp add: explain_version_choice_def Let_def)

lemma explain_summary:
  "summary (explain_version_choice package old_version new_version ecosystem ctx) =
     (if get_bump_type old_version new_version = ''major''
      then major_summary old_version new_version
      else if get_bump_type old_version new_version = ''minor''
      then minor_summary old_version new_version
      else patch_summary old_version new_version)"
  by (simp add: explain_version_choice_def Let_def major_summary_def minor_summary_def
      patch_summary_def)

lemma explain_risk:
  "risk_reasoning (explain_version_choice package old_version new_version ecosystem ctx) =
     risk_baseline (get_bump_type old_version new_version) #
     (if fst (check_internal_incidents package old_version new_version) \<noteq> []
      then [warn_mark @ '' The old version ('' @ old_version @
              '') has known internal incidents that may be resolved in the new version.'']
      else []) @
     (if snd (check_internal_incidents package old_version new_version) \<noteq> []
      then [warn_mark @ '' WARNING: The new version ('' @ new_version @
              '') has known internal incidents. Consider investigating before upgrading.'']
      else [])"
  by (simp add: explain_version_choice_def Let_def risk_baseline_def)

lemma explain_compatibility:
  "compatibility_reasoning
     (explain_version_choice package old_version new_version ecosystem ctx) =
     (if compatible (check_compatibility package new_version ctx) \<noteq> []
      then [compatible_line (compatible (check_compatibility package new_version ctx))]
      else []) @
     (if incompatible (check_compatibility package new_version ctx) \<noteq> []
      then [concerns_line (incompatible (check_compatibility package new_version ctx))]
      else []) @
     (if compatible (check_compatibility package new_version ctx) = [] \<and>
         incompatible (check_compatibility package new_version ctx) = []
      then [no_data_line package] else [])"
  by (simp add: explain_version_choice_def Let_def compatible_line_def concerns_line_def
      no_data_line_def)

lemma get_bump_type_values:
  "get_bump_type old_version new_version \<in> {''major'', ''minor'', ''patch'', ''unknown''}"
  by (simp add: get_bump_type_def Let_def)

lemmas issues_eval = check_security_issues_def KNOWN_ISSUES_def dict_get_def

lemmas incidents_eval = check_internal_incidents_def INTERNAL_INCIDENTS_def dict_get_def

text \<open>
  Claim C6. The security reasoning of \<open>explain_version_choice\<close> is built by one rule.
  When the old version has known issues, the first line lists them, and a line saying
  that the new version addresses them follows exactly when the new version has none.
  When the old version has no known issues, the first line says so instead. When the
  new version has known issues, a warning line that lists them closes the list in both
  cases. For payments-core from 3.0.0 to 3.1.0 the list is the line with the one known
  issue and the confirmation line.
\<close>

theorem security_reasoning_rule:
  "(check_security_issues package old_version new_version = (old_issues, new_issues) \<longrightarrow>
      (old_issues \<noteq> [] \<and> new_issues = [] \<longrightarrow>
         security_reasoning
           (explain_version_choice package old_version new_version ecosystem ctx) =
         [vulnerable_line old_version old_issues, resolved_line new_version]) \<and>
      (old_issues \<noteq> [] \<and> new_issues \<noteq> [] \<longrightarrow>
         security_reasoning
           (explain_version_choice package old_version new_version ecosystem ctx) =
         [vulnerable_line old_version old_issues, warning_line new_version new_issues]) \<and>
      (old_issues = [] \<and> new_issues = [] \<longrightarrow>
         security_reasoning
           (explain_version_choice package old_version new_version ecosystem ctx) =
         [clean_line old_version]) \<and>
      (old_issues = [] \<and> new_issues \<noteq> [] \<longrightarrow>
         security_reasoning
           (explain_version_choice package old_version new_version ecosystem ctx) =
         [clean_line old_version, warning_line new_version new_issues])) \<and>
   security_reasoning (explain_version_choice ''payments-core'' ''3.0.0'' ''3.1.0'' ecosystem ctx) =
     [lock_mark @ '' The old version (3.0.0) has known security vulnerabilities: CVE-2024-002: Potential race condition in transaction processing'',
      check_mark @ '' The new version (3.1.0) appears to address these security issues.'']"
proof -
  have sample: "check_security_issues ''payments-core'' ''3.0.0'' ''3.1.0'' =
      ([''CVE-2024-002: Potential race condition in transaction processing''], [])"
    by (simp add: issues_eval)
  have "security_reasoning
      (explain_version_choice ''payments-core'' ''3.0.0'' ''3.1.0'' ecosystem ctx) =
     [lock_mark @ '' The old version (3.0.0) has known security vulnerabilities: CVE-2024-002: Potential race condition in transaction processing'',
      check_mark @ '' The new version (3.1.0) appears to address these security issues.'']"
    by (simp add: explain_security sample vulnerable_line_def resolved_line_def)
  then show ?thesis
    by (simp add: explain_security)
qed

theorem security_reasoning_rule_witness:
  "check_security_issues ''payments-core'' ''3.0.0'' ''3.1.0'' =
     ([''CVE-2024-002: Potential race condition in transaction processing''], []) \<and>
   security_reasoning (explain_version_choice ''payments-core'' ''3.0.0'' ''3.1.0'' ''pip'' None) =
     [vulnerable_line ''3.0.0''
        [''CVE-2024-002: Potential race condition in transaction processing''],
      resolved_line ''3.1.0''] \<and>
   check_security_issues ''auth-lib'' ''2.0.0'' ''2.0.5'' =
     ([''CVE-2024-001: Token validation bypass vulnerability''],
      [''CVE-2024-001: Token validation bypass vulnerability'']) \<and>
   security_reasoning (explain_version_choice ''auth-lib'' ''2.0.0'' ''2.0.5'' ''pip'' None) =
     [vulnerable_line ''2.0.0'' [''CVE-2024-001: Token validation bypass vulnerability''],
      warning_line ''2.0.5'' [''CVE-2024-001: Token validation bypass vulnerability'']] \<and>
   check_security_issues ''auth-lib'' ''2.1.0'' ''2.2.0'' = ([], []) \<and>
   security_reasoning (explain_version_choice ''auth-lib'' ''2.1.0'' ''2.2.0'' ''pip'' None) =
     [clean_line ''2.1.0''] \<and>
   check_security_issues ''auth-lib'' ''2.1.0'' ''2.0.5'' =
     ([], [''CVE-2024-001: Token validation bypass vulnerability'']) \<and>
   security_reasoning (explain_version_choice ''auth-lib'' ''2.1.0'' ''2.0.5'' ''pip'' None) =
     [clean_line ''2.1.0'',
      warning_line ''2.0.5'' [''CVE-2024-001: Token validation bypass vulnerability'']]"
proof -
  let ?cve1 = "''CVE-2024-001: Token validation bypass vulnerability''"
  let ?cve2 = "''CVE-2024-002: Potential race condition in transaction processing''"
  have a: "check_security_issues ''payments-core'' ''3.0.0'' ''3.1.0'' = ([?cve2], [])"
    by (simp add: issues_eval)
  have b: "check_security_issues ''auth-lib'' ''2.0.0'' ''2.0.5'' = ([?cve1], [?cve1])"
    by (simp add: issues_eval)
  have c: "check_security_issues ''auth-lib'' ''2.1.0'' ''2.2.0'' = ([], [])"
    by (simp add: issues_eval)
  have d: "check_security_issues ''auth-lib'' ''2.1.0'' ''2.0.5'' = ([], [?cve1])"
    by (simp add: issues_eval)
  have ne: "[?cve1] \<noteq> []" "[?cve2] \<noteq> []" by simp_all
  have ra: "security_reasoning
      (explain_version_choice ''payments-core'' ''3.0.0'' ''3.1.0'' ''pip'' None) =
      [vulnerable_line ''3.0.0'' [?cve2], resolved_line ''3.1.0'']"
    using security_reasoning_rule [of "''payments-core''" "''3.0.0''" "''3.1.0''"
        "[?cve2]" "[]" "''pip''" None] a ne
    by blast
  have rb: "security_reasoning
      (explain_version_choice ''auth-lib'' ''2.0.0'' ''2.0.5'' ''pip'' None) =
      [vulnerable_line ''2.0.0'' [?cve1], warning_line ''2.0.5'' [?cve1]]"
    using security_reasoning_rule [of "''auth-lib''" "''2.0.0''" "''2.0.5''"
        "[?cve1]" "[?cve1]" "''pip''" None] b ne
    by blast
  have rc: "security_reasoning
      (explain_version_choice ''auth-lib'' ''2.1.0'' ''2.2.0'' ''pip'' None) =
      [clean_line ''2.1.0'']"
    using security_reasoning_rule [of "''auth-lib''" "''2.1.0''" "''2.2.0''"
        "[]" "[]" "''pip''" None] c
    by blast
  have rd: "security_reasoning
      (explain_version_choice ''auth-lib'' ''2.1.0'' ''2.0.5'' ''pip'' None) =
      [clean_line ''2.1.0'', warning_line ''2.0.5'' [?cve1]]"
    using security_reasoning_rule [of "''auth-lib''" "''2.1.0''" "''2.0.5''"
        "[]" "[?cve1]" "''pip''" None] d ne
    by blast
  show ?thesis using a b c d ra rb rc rd by blast
qed

text \<open>
  Claim C7. The source list of the result holds at most four citations, always in the
  order release notes, security advisories, incident reports, compatibility matrix:
  the release notes of the new version are cited exactly when the notes found differ
  from the text used for missing notes, the advisories of the old version exactly when
  it has known issues, its incident reports exactly when it has incidents on record,
  and the matrix exactly when one of the two compatibility lists is not empty.
\<close>

theorem sources_rule:
  "sources (explain_version_choice package old_version new_version ecosystem ctx) =
     (if release_notes (explain_version_choice package old_version new_version ecosystem ctx)
           \<noteq> ''No release notes available.''
      then [''Release notes for '' @ package @ '' '' @ new_version] else []) @
     (if fst (check_security_issues package old_version new_version) \<noteq> []
      then [''Security advisories for '' @ package @ '' '' @ old_version] else []) @
     (if fst (check_internal_incidents package old_version new_version) \<noteq> []
      then [''Internal incident reports for '' @ package @ '' '' @ old_version] else []) @
     (if compatible (check_compatibility package new_version ctx) \<noteq> [] \<or>
         incompatible (check_compatibility package new_version ctx) \<noteq> []
      then [''Internal compatibility matrix''] else []) \<and>
   (release_source package new_version \<in>
      set (sources (explain_version_choice package old_version new_version ecosystem ctx)) \<longleftrightarrow>
    release_notes (explain_version_choice package old_version new_version ecosystem ctx)
      \<noteq> missing_notes) \<and>
   (advisory_source package old_version \<in>
      set (sources (explain_version_choice package old_version new_version ecosystem ctx)) \<longleftrightarrow>
    fst (check_security_issues package old_version new_version) \<noteq> []) \<and>
   (incident_source package old_version \<in>
      set (sources (explain_version_choice package old_version new_version ecosystem ctx)) \<longleftrightarrow>
    fst (check_internal_incidents package old_version new_version) \<noteq> []) \<and>
   (matrix_source \<in>
      set (sources (explain_version_choice package old_version new_version ecosystem ctx)) \<longleftrightarrow>
    compatible (check_compatibility package new_version ctx) \<noteq> [] \<or>
    incompatible (check_compatibility package new_version ctx) \<noteq> [])"
  by (simp add: explain_sources missing_notes_def release_source_def advisory_source_def
      incident_source_def matrix_source_def)

theorem sources_rule_witness:
  "sources (explain_version_choice ''auth-lib'' ''2.0.0'' ''2.1.0'' ''pip'' None) =
     [''Release notes for auth-lib 2.1.0'', ''Security advisories for auth-lib 2.0.0'',
      ''Internal incident reports for auth-lib 2.0.0'', ''Internal compatibility matrix''] \<and>
   sources (explain_version_choice ''payments-core'' ''3.0.0'' ''3.1.0'' ''pip'' None) =
     [''Release notes for payments-core 3.1.0'', ''Security advisories for payments-core 3.0.0'',
      ''Internal compatibility matrix''] \<and>
   sources (explain_version_choice ''unknown-pkg'' ''1.0.0'' ''2.0.0'' ''pip'' None) = []"
proof -
  have n: "release_notes (explain_version_choice ''auth-lib'' ''2.0.0'' ''2.1.0'' ''pip'' None)
             \<noteq> ''No release notes available.''"
    "release_notes (explain_version_choice ''payments-core'' ''3.0.0'' ''3.1.0'' ''pip'' None)
             \<noteq> ''No release notes available.''"
    "release_notes (explain_version_choice ''unknown-pkg'' ''1.0.0'' ''2.0.0'' ''pip'' None)
             = ''No release notes available.''"
    by (simp_all add: explain_release_notes missing_notes_def RELEASE_METADATA_def dict_get_def)
  have i: "fst (check_security_issues ''auth-lib'' ''2.0.0'' ''2.1.0'') \<noteq> []"
    "fst (check_security_issues ''payments-core'' ''3.0.0'' ''3.1.0'') \<noteq> []"
    "fst (check_security_issues ''unknown-pkg'' ''1.0.0'' ''2.0.0'') = []"
    by (simp_all add: issues_eval)
  have j: "fst (check_internal_incidents ''auth-lib'' ''2.0.0'' ''2.1.0'') \<noteq> []"
    "fst (check_internal_incidents ''payments-core'' ''3.0.0'' ''3.1.0'') = []"
    "fst (check_internal_incidents ''unknown-pkg'' ''1.0.0'' ''2.0.0'') = []"
    by (simp_all add: incidents_eval)
  have c: "compatible (check_compatibility ''auth-lib'' ''2.1.0'' None) \<noteq> []"
    "compatible (check_compatibility ''payments-core'' ''3.1.0'' None) \<noteq> []"
    "compatible (check_compatibility ''unknown-pkg'' ''2.0.0'' None) = []"
    "incompatible (check_compatibility ''unknown-pkg'' ''2.0.0'' None) = []"
    by code_simp+
  show ?thesis
    using n i j c
      sources_rule [of "''auth-lib''" "''2.0.0''" "''2.1.0''" "''pip''" None, THEN conjunct1]
      sources_rule [of "''payments-core''" "''3.0.0''" "''3.1.0''" "''pip''" None, THEN conjunct1]
      sources_rule [of "''unknown-pkg''" "''1.0.0''" "''2.0.0''" "''pip''" None, THEN conjunct1]
    by simp
qed

text \<open>
  Claim C8. The summary of \<open>explain_version_choice\<close> is chosen by the computed bump
  type alone, the two version strings filling the chosen wording: the breaking-change
  wording for \<open>major\<close>, the new-features wording for \<open>minor\<close>, and the bug-fix wording in
  every other case, so for \<open>patch\<close> and for \<open>unknown\<close> alike. The computed bump type takes
  one of these four values, and neither the package, the ecosystem, the context nor the
  bump type declared in the release table changes the summary.
\<close>

theorem summary_rule:
  "bump_type (explain_version_choice package old_version new_version ecosystem ctx) =
     get_bump_type old_version new_version \<and>
   get_bump_type old_version new_version \<in> {''major'', ''minor'', ''patch'', ''unknown''} \<and>
   (get_bump_type old_version new_version = ''major'' \<longrightarrow>
      summary (explain_version_choice package old_version new_version ecosystem ctx) =
      ''Major version upgrade from '' @ old_version @ '' to '' @ new_version @
      ''. This may include breaking changes.'') \<and>
   (get_bump_type old_version new_version = ''minor'' \<longrightarrow>
      summary (explain_version_choice package old_version new_version ecosystem ctx) =
      ''Minor version upgrade from '' @ old_version @ '' to '' @ new_version @
      ''. New features and improvements expected.'') \<and>
   (get_bump_type old_version new_version = ''patch'' \<or>
    get_bump_type old_version new_version = ''unknown'' \<longrightarrow>
      summary (explain_version_choice package old_version new_version ecosystem ctx) =
      ''Patch upgrade from '' @ old_version @ '' to '' @ new_version @
      ''. Bug fixes and security patches.'') \<and>
   summary (explain_version_choice package old_version new_version ecosystem ctx) =
     summary (explain_version_choice other_package old_version new_version
                other_ecosystem other_ctx)"
  using get_bump_type_values [of old_version new_version]
  by (auto simp: explain_summary explain_bump_type major_summary_def minor_summary_def
      patch_summary_def)

theorem summary_rule_witness:
  "get_bump_type ''1.9.9'' ''2.0.0'' = ''major'' \<and>
   summary (explain_version_choice ''auth-lib'' ''1.9.9'' ''2.0.0'' ''pip'' None) =
     ''Major version upgrade from 1.9.9 to 2.0.0. This may include breaking changes.'' \<and>
   get_bump_type ''2.1.0'' ''2.2.0'' = ''minor'' \<and>
   summary (explain_version_choice ''auth-lib'' ''2.1.0'' ''2.2.0'' ''pip'' None) =
     ''Minor version upgrade from 2.1.0 to 2.2.0. New features and improvements expected.'' \<and>
   get_bump_type ''1.5.0'' ''1.5.1'' = ''patch'' \<and>
   summary (explain_version_choice ''logging-lib'' ''1.5.0'' ''1.5.1'' ''pip'' None) =
     ''Patch upgrade from 1.5.0 to 1.5.1. Bug fixes and security patches.'' \<and>
   get_bump_type ''1.5.1'' ''1.5.0'' = ''unknown'' \<and>
   summary (explain_version_choice ''logging-lib'' ''1.5.1'' ''1.5.0'' ''pip'' None) =
     ''Patch upgrade from 1.5.1 to 1.5.0. Bug fixes and security patches.''"
proof -
  have b: "get_bump_type ''1.9.9'' ''2.0.0'' = ''major''"
    "get_bump_type ''2.1.0'' ''2.2.0'' = ''minor''"
    "get_bump_type ''1.5.0'' ''1.5.1'' = ''patch''"
    "get_bump_type ''1.5.1'' ''1.5.0'' = ''unknown''"
    by (simp_all add: get_bump_type_def parse_version_eval)
  show ?thesis
    using b
      summary_rule [of "''auth-lib''" "''1.9.9''" "''2.0.0''" "''pip''" None "[]" "[]" None]
      summary_rule [of "''auth-lib''" "''2.1.0''" "''2.2.0''" "''pip''" None "[]" "[]" None]
      summary_rule [of "''logging-lib''" "''1.5.0''" "''1.5.1''" "''pip''" None "[]" "[]" None]
      summary_rule [of "''logging-lib''" "''1.5.1''" "''1.5.0''" "''pip''" None "[]" "[]" None]
    by simp
qed

section \<open>Properties of the presentation layer\<close>

text \<open>
  Claim C9. When the button is pressed while the package name, the old version or the
  new version is empty, the block reports the validation message and returns the
  conversation log as it received it: neither a user entry nor an assistant entry is
  added, and the page is not rerun. With the three fields filled in, it adds exactly a
  user entry followed by an assistant entry and shows no error.
\<close>

theorem on_explain_validation:
  "(package = [] \<or> old_version = [] \<or> new_version = [] \<longrightarrow>
      messages (on_explain log True ecosystem package old_version new_version ctx) = log \<and>
      shown_error (on_explain log True ecosystem package old_version new_version ctx) =
        Some ''Please fill in package name, old version, and new version.'' \<and>
      \<not> rerun (on_explain log True ecosystem package old_version new_version ctx)) \<and>
   (package \<noteq> [] \<and> old_version \<noteq> [] \<and> new_version \<noteq> [] \<longrightarrow>
      (\<exists>question answer.
         messages (on_explain log True ecosystem package old_version new_version ctx) =
           log @ [\<lparr>role = ''user'', content = question\<rparr>,
                  \<lparr>role = ''assistant'', content = answer\<rparr>]) \<and>
      shown_error (on_explain log True ecosystem package old_version new_version ctx) = None)"
  by (simp add: on_explain_def Let_def)

theorem on_explain_validation_witness:
  "messages (on_explain [\<lparr>role = ''user'', content = ''earlier question''\<rparr>] True
      ''pip'' [] ''2.1.0'' ''2.2.0'' ''Checkout Service'') =
     [\<lparr>role = ''user'', content = ''earlier question''\<rparr>] \<and>
   messages (on_explain [] True ''npm'' ''auth-lib'' [] ''2.2.0'' []) = [] \<and>
   messages (on_explain [] True ''npm'' ''auth-lib'' ''2.1.0'' [] []) = [] \<and>
   shown_error (on_explain [] True ''npm'' ''auth-lib'' ''2.1.0'' [] []) =
     Some ''Please fill in package name, old version, and new version.'' \<and>
   length (messages (on_explain [] True ''npm'' ''auth-lib'' ''2.1.0'' ''2.2.0'' [])) = 2"
proof -
  have filled: "''auth-lib'' \<noteq> [] \<and> ''2.1.0'' \<noteq> [] \<and> ''2.2.0'' \<noteq> []" by simp
  have two: "length (messages (on_explain [] True ''npm'' ''auth-lib'' ''2.1.0'' ''2.2.0'' [])) = 2"
    using filled
      on_explain_validation [of "''auth-lib''" "''2.1.0''" "''2.2.0''" "[]" "''npm''" "[]",
        THEN conjunct2]
    by auto
  show ?thesis
    using two
      on_explain_validation [of "[]" "''2.1.0''" "''2.2.0''"
        "[\<lparr>role = ''user'', content = ''earlier question''\<rparr>]" "''pip''"
        "''Checkout Service''", THEN conjunct1]
      on_explain_validation [of "''auth-lib''" "[]" "''2.2.0''" "[]" "''npm''" "[]",
        THEN conjunct1]
      on_explain_validation [of "''auth-lib''" "''2.1.0''" "[]" "[]" "''npm''" "[]",
        THEN conjunct1]
    by simp
qed

text \<open>
  Claim C10. For every input, none of the three reasoning lists of the result is empty.
  The risk reasoning starts with the baseline line of the computed bump type; the
  security reasoning starts with the line that lists the issues of the old version or
  with the line that says none is known; the compatibility reasoning holds the line of
  compatible versions or the line of compatibility concerns, or else it is the single
  line saying that no compatibility data was found.
\<close>

theorem reasoning_lists_not_empty:
  "risk_reasoning (explain_version_choice package old_version new_version ecosystem ctx)
     \<noteq> [] \<and>
   hd (risk_reasoning (explain_version_choice package old_version new_version ecosystem ctx)) =
     risk_baseline (get_bump_type old_version new_version) \<and>
   security_reasoning (explain_version_choice package old_version new_version ecosystem ctx)
     \<noteq> [] \<and>
   (hd (security_reasoning
          (explain_version_choice package old_version new_version ecosystem ctx)) =
      vulnerable_line old_version (fst (check_security_issues package old_version new_version)) \<or>
    hd (security_reasoning
          (explain_version_choice package old_version new_version ecosystem ctx)) =
      clean_line old_version) \<and>
   compatibility_reasoning
     (explain_version_choice package old_version new_version ecosystem ctx) \<noteq> [] \<and>
   (compatible_line (compatible (check_compatibility package new_version ctx)) \<in>
      set (compatibility_reasoning
             (explain_version_choice package old_version new_version ecosystem ctx)) \<or>
    concerns_line (incompatible (check_compatibility package new_version ctx)) \<in>
      set (compatibility_reasoning
             (explain_version_choice package old_version new_version ecosystem ctx)) \<or>
    compatibility_reasoning
      (explain_version_choice package old_version new_version ecosystem ctx) =
      [no_data_line package])"
proof -
  let ?e = "explain_version_choice package old_version new_version ecosystem ctx"
  have risk: "risk_reasoning ?e \<noteq> [] \<and>
      hd (risk_reasoning ?e) = risk_baseline (get_bump_type old_version new_version)"
    by (simp add: explain_risk)
  have security: "security_reasoning ?e \<noteq> [] \<and>
      (hd (security_reasoning ?e) =
         vulnerable_line old_version (fst (check_security_issues package old_version new_version)) \<or>
       hd (security_reasoning ?e) = clean_line old_version)"
    by (simp add: explain_security)
  have compat: "compatibility_reasoning ?e \<noteq> [] \<and>
      (compatible_line (compatible (check_compatibility package new_version ctx)) \<in>
         set (compatibility_reasoning ?e) \<or>
       concerns_line (incompatible (check_compatibility package new_version ctx)) \<in>
         set (compatibility_reasoning ?e) \<or>
       compatibility_reasoning ?e = [no_data_line package])"
    by (simp add: explain_compatibility)
  show ?thesis using risk security compat by blast
qed

theorem reasoning_lists_not_empty_witness:
  "risk_reasoning (explain_version_choice ''logging-lib'' ''1.5.0'' ''1.5.1'' ''pip'' None) =
     [''This is a patch upgrade, which should be low risk and focused on bug fixes.''] \<and>
   security_reasoning (explain_version_choice ''auth-lib'' ''2.1.0'' ''2.2.0'' ''pip'' None) =
     [check_mark @ '' No known security issues found for version 2.1.0.''] \<and>
   compatibility_reasoning
     (explain_version_choice ''unknown-pkg'' ''1.0.0'' ''2.0.0'' ''pip'' None) =
     [info_mark @ '' No compatibility data found for other services using unknown-pkg.'']"
proof -
  have b: "get_bump_type ''1.5.0'' ''1.5.1'' = ''patch''"
    by (simp add: get_bump_type_def parse_version_eval)
  have j: "check_internal_incidents ''logging-lib'' ''1.5.0'' ''1.5.1'' = ([], [])"
    by (simp add: incidents_eval)
  have i: "check_security_issues ''auth-lib'' ''2.1.0'' ''2.2.0'' = ([], [])"
    by (simp add: issues_eval)
  have c: "compatible (check_compatibility ''unknown-pkg'' ''2.0.0'' None) = []"
    "incompatible (check_compatibility ''unknown-pkg'' ''2.0.0'' None) = []"
    by code_simp+
  have r: "risk_reasoning (explain_version_choice ''logging-lib'' ''1.5.0'' ''1.5.1'' ''pip'' None) =
     [''This is a patch upgrade, which should be low risk and focused on bug fixes.'']"
    using reasoning_lists_not_empty [of "''logging-lib''" "''1.5.0''" "''1.5.1''" "''pip''" None]
    by (simp add: explain_risk b j risk_baseline_def)
  have s: "security_reasoning (explain_version_choice ''auth-lib'' ''2.1.0'' ''2.2.0'' ''pip'' None) =
     [check_mark @ '' No known security issues found for version 2.1.0.'']"
    by (simp add: explain_security i clean_line_def)
  have k: "compatibility_reasoning
     (explain_version_choice ''unknown-pkg'' ''1.0.0'' ''2.0.0'' ''pip'' None) =
     [info_mark @ '' No compatibility data found for other services using unknown-pkg.'']"
    by (simp add: explain_compatibility c no_data_line_def)
  show ?thesis using r s k by blast
qed

end
